theory Spec2Isabelle
  imports Complex_Main
begin

section \<open>Sentinel-2 burn scar detection (main.py)\<close>

text \<open>
  Python numbers are modelled as \<^typ>\<open>real\<close> (index values, thresholds) and \<^typ>\<open>int\<close>
  (years, timestamps); a value that may be Python's \<open>None\<close> is an \<^typ>\<open>'a option\<close>.
  A raised exception is the \<open>Inl\<close> of a sum; a \<open>try\<close>/\<open>except\<close> is a case
  distinction on that sum.
\<close>

subsection \<open>Configuration\<close>

definition LATEST_VALID_LANDCOVER_YEAR :: int where
  "LATEST_VALID_LANDCOVER_YEAR = 2023"

subsection \<open>Severity classification\<close>

text \<open>\<open>get_burn_severity(dnbr_value)\<close>: the \<open>None\<close> test first, then the chain of
  \<open>>=\<close> tests from the highest threshold down.\<close>

fun get_burn_severity :: "real option \<Rightarrow> string" where
  "get_burn_severity None = ''Unknown''"
| "get_burn_severity (Some dnbr_value) =
     (if dnbr_value \<ge> 0.66 then ''Very High Severity''
      else if dnbr_value \<ge> 0.44 then ''High Severity''
      else if dnbr_value \<ge> 0.27 then ''Moderate Severity''
      else if dnbr_value \<ge> 0.10 then ''Low Severity''
      else ''Unburned or Regrowth'')"

text \<open>The five documented severity levels.\<close>

definition severity_levels :: "string list" where
  "severity_levels =
     [''Very High Severity'', ''High Severity'', ''Moderate Severity'',
      ''Low Severity'', ''Unburned or Regrowth'']"

subsection \<open>Exceptions and Python helpers\<close>

text \<open>The exceptions the code raises or catches. \<open>HTTPException\<close> carries
  \<open>status_code\<close> and \<open>detail\<close>; \<open>EEException\<close> is the Earth Engine client's error;
  \<open>OtherException\<close> stands for any other subclass of \<open>Exception\<close>.\<close>

datatype exn =
    HTTPException int string
  | EEException string
  | KeyError string
  | IndexError
  | TypeError
  | OtherException string

definition bind_exn :: "exn + 'a \<Rightarrow> ('a \<Rightarrow> exn + 'b) \<Rightarrow> exn + 'b" where
  "bind_exn m f = (case m of Inl e \<Rightarrow> Inl e | Inr x \<Rightarrow> f x)"

text \<open>A dict with string keys is an association list (keys distinct).
  \<open>d.get(k, default)\<close>, \<open>d[k]\<close> and \<open>xs[i]\<close> for a literal index \<open>i \<ge> 0\<close>.\<close>

definition dict_get :: "(string \<times> 'v) list \<Rightarrow> string \<Rightarrow> 'v \<Rightarrow> 'v" where
  "dict_get d k dflt = (case map_of d k of None \<Rightarrow> dflt | Some v \<Rightarrow> v)"

definition dict_item :: "(string \<times> 'v) list \<Rightarrow> string \<Rightarrow> exn + 'v" where
  "dict_item d k = (case map_of d k of None \<Rightarrow> Inl (KeyError k) | Some v \<Rightarrow> Inr v)"

definition list_item :: "'a list \<Rightarrow> nat \<Rightarrow> exn + 'a" where
  "list_item xs i = (if i < length xs then Inr (xs ! i) else Inl IndexError)"

text \<open>\<open>round(x, ndigits)\<close> on the exact value: to the nearest multiple of
  \<open>10 ^ -ndigits\<close>, a tie going to the even one. \<open>round(None, n)\<close> raises \<open>TypeError\<close>.\<close>

definition round_half_even :: "real \<Rightarrow> int" where
  "round_half_even y =
     (let f = \<lfloor>y\<rfloor>; r = y - of_int f
      in if r < 1 / 2 then f else if r > 1 / 2 then f + 1
         else if even f then f else f + 1)"

definition py_round :: "real \<Rightarrow> nat \<Rightarrow> real" where
  "py_round x ndigits = of_int (round_half_even (x * 10 ^ ndigits)) / 10 ^ ndigits"

definition py_round_value :: "real option \<Rightarrow> nat \<Rightarrow> exn + real" where
  "py_round_value v ndigits =
     (case v of None \<Rightarrow> Inl TypeError | Some x \<Rightarrow> Inr (py_round x ndigits))"

text \<open>\<open>max(xs, default=d)\<close>: the default on the empty list, otherwise a left-to-right
  scan that replaces the running maximum by a strictly greater element.\<close>

fun py_max :: "real list \<Rightarrow> real \<Rightarrow> real" where
  "py_max [] d = d"
| "py_max (x # xs) d = foldl (\<lambda>m y. if y > m then y else m) x xs"

subsection \<open>Dates\<close>

text \<open>An \<open>ee.Date\<close> is a number of milliseconds since the epoch (UTC);
  \<open>advance(delta, 'day')\<close> moves it by whole days.\<close>

datatype time_unit = Day

definition ms_per_day :: int where
  "ms_per_day = 86400000"

fun advance :: "int \<Rightarrow> time_unit \<Rightarrow> int \<Rightarrow> int" where
  "advance delta Day d = d + delta * ms_per_day"

text \<open>Lines 120 and 121: both ends of the pre-fire window are taken from the post-fire
  start.\<close>

definition pre_fire_start :: "int \<Rightarrow> int" where
  "pre_fire_start post_fire_start = advance (- 60) Day post_fire_start"

definition pre_fire_end :: "int \<Rightarrow> int" where
  "pre_fire_end post_fire_start = advance (- 15) Day post_fire_start"

subsection \<open>Rasters and masks\<close>

text \<open>A single-band image is a function from pixels to values, a mask a function from
  pixels to truth values (a pixel that is masked out, or zero, is \<open>False\<close>). A composite has
  the three bands the indices read. \<open>gt\<close>, \<open>eq\<close>, \<open>And\<close> and \<open>Or\<close> work pixel by
  pixel; \<open>updateMask\<close> keeps a pixel's value where the mask holds and leaves no data
  elsewhere.\<close>

record bands =
  B4 :: real
  B8 :: real
  B12 :: real

definition normalizedDifference ::
  "('p \<Rightarrow> bands) \<Rightarrow> (bands \<Rightarrow> real) \<Rightarrow> (bands \<Rightarrow> real) \<Rightarrow> 'p \<Rightarrow> real" where
  "normalizedDifference img b1 b2 = (\<lambda>p. (b1 (img p) - b2 (img p)) / (b1 (img p) + b2 (img p)))"

definition subtract :: "('p \<Rightarrow> real) \<Rightarrow> ('p \<Rightarrow> real) \<Rightarrow> 'p \<Rightarrow> real" where
  "subtract a b = (\<lambda>p. a p - b p)"

definition calculate_bai :: "('p \<Rightarrow> bands) \<Rightarrow> 'p \<Rightarrow> real" where
  "calculate_bai img = (\<lambda>p. 1.0 / ((0.1 - B4 (img p))\<^sup>2 + (0.06 - B8 (img p))\<^sup>2))"

definition ee_gt :: "('p \<Rightarrow> real) \<Rightarrow> real \<Rightarrow> 'p \<Rightarrow> bool" where
  "ee_gt img c = (\<lambda>p. img p > c)"

definition ee_eq :: "('p \<Rightarrow> int) \<Rightarrow> int \<Rightarrow> 'p \<Rightarrow> bool" where
  "ee_eq img c = (\<lambda>p. img p = c)"

definition ee_And :: "('p \<Rightarrow> bool) \<Rightarrow> ('p \<Rightarrow> bool) \<Rightarrow> 'p \<Rightarrow> bool" where
  "ee_And a b = (\<lambda>p. a p \<and> b p)"

definition ee_Or :: "('p \<Rightarrow> bool) \<Rightarrow> ('p \<Rightarrow> bool) \<Rightarrow> 'p \<Rightarrow> bool" where
  "ee_Or a b = (\<lambda>p. a p \<or> b p)"

definition updateMask :: "('p \<Rightarrow> 'v) \<Rightarrow> ('p \<Rightarrow> bool) \<Rightarrow> 'p \<Rightarrow> 'v option" where
  "updateMask img m = (\<lambda>p. if m p then Some (img p) else None)"

text \<open>A sampled feature as \<open>getInfo()\<close> returns it: the \<open>properties\<close> dict (a value may
  be null) and the point's \<open>coordinates\<close>.\<close>

record feature =
  properties :: "(string \<times> real option) list"
  coordinates :: "real list"

subsection \<open>The Earth Engine service\<close>

text \<open>
  What the remote service answers is a parameter of the model. Each field is one blocking
  call of the code (\<open>getInfo()\<close> and what it forces); a call that can fail returns a sum.
  \<^item> \<open>ee_Date\<close>: the date string as a timestamp (lines 118, 119, forced at 123, 124);
  \<^item> \<open>collection_size\<close>: the number of Sentinel-2 images over the region with less than
    40 percent cloud, between two timestamps (lines 126 to 134);
  \<^item> \<open>median_composite\<close>: the median of the cloud-masked images of such a subset;
  \<^item> \<open>date_year\<close>: the calendar year of a timestamp (line 157);
  \<^item> \<open>landcover_first\<close>: the first land-cover image of a year, its band \<open>LC_Type1\<close>
    (lines 70 to 72);
  \<^item> \<open>sample\<close>: the features sampled from the masked analysis image (lines 172 to 176);
  \<^item> \<open>ee_Geometry\<close>: the geometry built from a GeoJSON value (line 215);
  \<^item> \<open>gaul_level2\<close>: the features of the boundary dataset, \<open>collection_geometry\<close> the
    geometry of a feature collection (lines 49 to 60);
  \<^item> \<open>str_exn\<close>: \<open>str(e)\<close> of an exception.
\<close>

record 'j gaul_feature =
  ADM1_NAME :: string
  ADM2_NAME :: string
  geometry_info :: 'j

record ('j, 'g, 'p) earth_engine =
  ee_Date :: "string \<Rightarrow> exn + int"
  collection_size :: "'g \<Rightarrow> int \<Rightarrow> int \<Rightarrow> exn + nat"
  median_composite :: "'g \<Rightarrow> int \<Rightarrow> int \<Rightarrow> 'p \<Rightarrow> bands"
  date_year :: "int \<Rightarrow> exn + int"
  landcover_first :: "int \<Rightarrow> exn + ('p \<Rightarrow> int) option"
  sample :: "'g \<Rightarrow> ('p \<Rightarrow> (real \<times> real \<times> real) option) \<Rightarrow> exn + feature list"
  ee_Geometry :: "'j \<Rightarrow> exn + 'g"
  gaul_level2 :: "exn + 'j gaul_feature list"
  collection_geometry :: "'j gaul_feature list \<Rightarrow> 'g"
  str_exn :: "exn \<Rightarrow> string"

subsection \<open>Agricultural mask\<close>

text \<open>\<open>get_agricultural_mask(year)\<close>: \<open>None\<close> when the query gives no image or raises,
  otherwise the pixels whose land-cover class is 12 or 14.\<close>

definition get_agricultural_mask ::
  "('j, 'g, 'p) earth_engine \<Rightarrow> int \<Rightarrow> ('p \<Rightarrow> bool) option" where
  "get_agricultural_mask ee year =
     (case landcover_first ee year of
        Inl e \<Rightarrow> None
      | Inr None \<Rightarrow> None
      | Inr (Some landcover) \<Rightarrow> Some (ee_Or (ee_eq landcover 12) (ee_eq landcover 14)))"

text \<open>Line 158.\<close>

definition agri_mask_year :: "int \<Rightarrow> int" where
  "agri_mask_year analysis_year = min analysis_year LATEST_VALID_LANDCOVER_YEAR"

subsection \<open>Burn mask\<close>

text \<open>Lines 150 to 155: the three thresholds and their conjunction.\<close>

definition dnbr_threshold :: real where "dnbr_threshold = 0.10"
definition bai_threshold :: real where "bai_threshold = 89"
definition dndvi_threshold :: real where "dndvi_threshold = 0.2"

definition burn_mask ::
  "('p \<Rightarrow> real) \<Rightarrow> ('p \<Rightarrow> real) \<Rightarrow> ('p \<Rightarrow> real) \<Rightarrow> 'p \<Rightarrow> bool" where
  "burn_mask dnbr_img bai_img dndvi_img =
     ee_And (ee_And (ee_gt dnbr_img dnbr_threshold) (ee_gt bai_img bai_threshold))
            (ee_gt dndvi_img dndvi_threshold)"

text \<open>Lines 162 to 167: without an agricultural mask the burn mask is the final mask.\<close>

definition final_mask :: "('p \<Rightarrow> bool) \<Rightarrow> ('p \<Rightarrow> bool) option \<Rightarrow> 'p \<Rightarrow> bool" where
  "final_mask bm agri_mask =
     (case agri_mask of None \<Rightarrow> bm | Some am \<Rightarrow> ee_And bm am)"

text \<open>Line 169: the three bands stacked, under the final mask.\<close>

definition analysis_image ::
  "('p \<Rightarrow> real) \<Rightarrow> ('p \<Rightarrow> real) \<Rightarrow> ('p \<Rightarrow> real) \<Rightarrow> ('p \<Rightarrow> bool) option
     \<Rightarrow> 'p \<Rightarrow> (real \<times> real \<times> real) option" where
  "analysis_image dnbr_img bai_img dndvi_img agri_mask =
     updateMask (\<lambda>p. (dnbr_img p, bai_img p, dndvi_img p))
       (final_mask (burn_mask dnbr_img bai_img dndvi_img) agri_mask)"

subsection \<open>Detections\<close>

record hotspot =
  hotspot_id :: nat
  latitude :: real
  longitude :: real
  dnbr :: real
  bai :: real
  dndvi :: real
  severity :: string

text \<open>The body of the loop at lines 180 to 193, for the feature at index \<open>i\<close>. The
  entries of the dict are evaluated in the order they are written.\<close>

definition make_hotspot :: "nat \<Rightarrow> feature \<Rightarrow> exn + hotspot" where
  "make_hotspot i f =
     (let props = properties f;
          dnbr_value = dict_get props ''dNBR'' (Some 0);
          severity_level = get_burn_severity dnbr_value
      in bind_exn (list_item (coordinates f) 1) (\<lambda>lat.
         bind_exn (list_item (coordinates f) 0) (\<lambda>lon.
         bind_exn (py_round_value dnbr_value 3) (\<lambda>d.
         bind_exn (py_round_value (dict_get props ''BAI'' (Some 0)) 2) (\<lambda>b.
         bind_exn (py_round_value (dict_get props ''dNDVI'' (Some 0)) 3) (\<lambda>v.
         Inr \<lparr>hotspot_id = i + 1, latitude = lat, longitude = lon,
              dnbr = d, bai = b, dndvi = v, severity = severity_level\<rparr>))))))"

fun all_hotspots :: "nat \<Rightarrow> feature list \<Rightarrow> exn + hotspot list" where
  "all_hotspots i [] = Inr []"
| "all_hotspots i (f # fs) =
     bind_exn (make_hotspot i f) (\<lambda>h.
     bind_exn (all_hotspots (i + 1) fs) (\<lambda>hs. Inr (h # hs)))"

subsection \<open>The pipeline\<close>

text \<open>Lines 144 to 147: the two difference indices of the pre-fire and post-fire
  composites.\<close>

definition dNBR :: "('p \<Rightarrow> bands) \<Rightarrow> ('p \<Rightarrow> bands) \<Rightarrow> 'p \<Rightarrow> real" where
  "dNBR pre_fire_img post_fire_img =
     subtract (normalizedDifference pre_fire_img B8 B12)
              (normalizedDifference post_fire_img B8 B12)"

definition dNDVI :: "('p \<Rightarrow> bands) \<Rightarrow> ('p \<Rightarrow> bands) \<Rightarrow> 'p \<Rightarrow> real" where
  "dNDVI pre_fire_img post_fire_img =
     subtract (normalizedDifference pre_fire_img B8 B4)
              (normalizedDifference post_fire_img B8 B4)"

text \<open>Lines 141 to 194, the part of the \<open>try\<close> block after the test of the two counts,
  as a function of the two windows.\<close>

definition triple_check_analysis ::
  "('j, 'g, 'p) earth_engine \<Rightarrow> 'g \<Rightarrow> int \<Rightarrow> int \<Rightarrow> int \<Rightarrow> int \<Rightarrow> exn + hotspot list" where
  "triple_check_analysis ee roi_geometry pre_start pre_end post_fire_start post_fire_end =
     (let pre_fire_img = median_composite ee roi_geometry pre_start pre_end;
          post_fire_img = median_composite ee roi_geometry post_fire_start post_fire_end;
          dnbr_img = dNBR pre_fire_img post_fire_img;
          dndvi_img = dNDVI pre_fire_img post_fire_img;
          bai_img = calculate_bai post_fire_img
      in bind_exn (date_year ee post_fire_start) (\<lambda>analysis_year.
         let agri_mask = get_agricultural_mask ee (agri_mask_year analysis_year)
         in bind_exn (sample ee roi_geometry
                        (analysis_image dnbr_img bai_img dndvi_img agri_mask)) (\<lambda>features.
            all_hotspots 0 features)))"

text \<open>The \<open>try\<close> block of \<open>extract_burn_scars_s2\<close>, lines 116 to 194.\<close>

definition extract_burn_scars_s2_try ::
  "('j, 'g, 'p) earth_engine \<Rightarrow> 'g \<Rightarrow> string \<Rightarrow> string \<Rightarrow> exn + hotspot list" where
  "extract_burn_scars_s2_try ee roi_geometry start_date_str end_date_str =
     bind_exn (ee_Date ee start_date_str) (\<lambda>post_fire_start.
     bind_exn (ee_Date ee end_date_str) (\<lambda>post_fire_end.
     bind_exn (collection_size ee roi_geometry
                 (pre_fire_start post_fire_start) (pre_fire_end post_fire_start)) (\<lambda>pre_count.
     bind_exn (collection_size ee roi_geometry post_fire_start post_fire_end) (\<lambda>post_count.
     if pre_count = 0 \<or> post_count = 0 then Inr []
     else triple_check_analysis ee roi_geometry
            (pre_fire_start post_fire_start) (pre_fire_end post_fire_start)
            post_fire_start post_fire_end))))"

text \<open>Both \<open>except\<close> clauses (lines 196 to 203) return the empty list.\<close>

definition extract_burn_scars_s2 ::
  "('j, 'g, 'p) earth_engine \<Rightarrow> 'g \<Rightarrow> string \<Rightarrow> string \<Rightarrow> exn + hotspot list" where
  "extract_burn_scars_s2 ee roi_geometry start_date_str end_date_str =
     (case extract_burn_scars_s2_try ee roi_geometry start_date_str end_date_str of
        Inl e \<Rightarrow> Inr []
      | Inr hs \<Rightarrow> Inr hs)"

subsection \<open>Boundary lookup\<close>

text \<open>The dict \<open>get_district_boundary\<close> returns, by its \<open>status\<close>: with the boundary and
  the geometry, not found, or with the error text.\<close>

datatype ('j, 'g) boundary_info =
    Boundary_success 'j 'g
  | Boundary_not_found
  | Boundary_error string

fun boundary_status :: "('j, 'g) boundary_info \<Rightarrow> string" where
  "boundary_status (Boundary_success bj geom) = ''success''"
| "boundary_status Boundary_not_found = ''not_found''"
| "boundary_status (Boundary_error msg) = ''error''"

definition get_district_boundary ::
  "('j, 'g, 'p) earth_engine \<Rightarrow> string \<Rightarrow> string \<Rightarrow> ('j, 'g) boundary_info" where
  "get_district_boundary ee st di =
     (case gaul_level2 ee of
        Inl e \<Rightarrow> Boundary_error (str_exn ee e)
      | Inr gaul \<Rightarrow>
          (let district_boundary =
                 filter (\<lambda>f. ADM1_NAME f = st \<and> ADM2_NAME f = di) gaul
           in case district_boundary of
                [] \<Rightarrow> Boundary_not_found
              | first # rest \<Rightarrow>
                  Boundary_success (geometry_info first)
                    (collection_geometry ee district_boundary)))"

subsection \<open>Orchestration\<close>

record 'j request =
  start_date :: string
  end_date :: string
  state :: "string option"
  district :: "string option"
  roi :: "(string \<times> 'j) list option"

text \<open>\<open>current_fire_data\<close>, the module-level dict of the last run.\<close>

record fire_data =
  cur_hotspots :: "hotspot list"
  cur_state :: string
  cur_district :: string
  cur_date_range :: string

definition initial_fire_data :: fire_data where
  "initial_fire_data =
     \<lparr>cur_hotspots = [], cur_state = [], cur_district = [], cur_date_range = []\<rparr>"

record point_feature =
  point_coordinates :: "real list"
  point_properties :: hotspot

text \<open>The dict \<open>run_fire_detection\<close> returns. The three keys that only the success dict
  has are optional.\<close>

record 'j response =
  status :: string
  fire_hotspots :: nat
  fire_area_hectares :: "real option"
  max_dnbr :: "real option"
  hotspots_geojson :: "point_feature list"
  boundary_geojson :: "'j option"

text \<open>Python's truth value of an optional dict and of an optional string.\<close>

definition truthy :: "'a list option \<Rightarrow> bool" where
  "truthy v = (case v of None \<Rightarrow> False | Some xs \<Rightarrow> xs \<noteq> [])"

text \<open>Lines 213 to 227: the region, the boundary to display and the two names.\<close>

definition resolve_region ::
  "('j, 'g, 'p) earth_engine \<Rightarrow> 'j request \<Rightarrow> exn + ('g \<times> 'j \<times> string \<times> string)" where
  "resolve_region ee request =
     (if truthy (roi request) then
        bind_exn (dict_item (the (roi request)) ''geometry'') (\<lambda>g.
        bind_exn (ee_Geometry ee g) (\<lambda>roi_geometry.
        Inr (roi_geometry, g, ''Custom'', ''ROI'')))
      else if truthy (state request) \<and> truthy (district request) then
        (let boundary_info =
               get_district_boundary ee (the (state request)) (the (district request))
         in if boundary_status boundary_info \<noteq> ''success'' then
              Inl (HTTPException 404 ''District not found'')
            else
              (case boundary_info of
                 Boundary_success bj geom \<Rightarrow>
                   Inr (geom, bj, the (state request), the (district request))
               | _ \<Rightarrow> Inl (KeyError ''geometry'')))
      else
        Inl (HTTPException 400
               ''Either a state/district or a custom ROI must be provided.''))"

text \<open>The \<open>try\<close> block of \<open>run_fire_detection\<close>, lines 209 to 249. It gives the response
  and the new value of \<open>current_fire_data\<close>.\<close>

definition run_fire_detection_try ::
  "('j, 'g, 'p) earth_engine \<Rightarrow> 'j request \<Rightarrow> exn + ('j response \<times> fire_data)" where
  "run_fire_detection_try ee request =
     bind_exn (resolve_region ee request)
       (\<lambda>(roi_geometry, boundary, state_name, district_name).
     bind_exn (extract_burn_scars_s2 ee roi_geometry (start_date request) (end_date request))
       (\<lambda>hotspots.
     Inr (\<lparr>status = ''Success'',
           fire_hotspots = length hotspots,
           fire_area_hectares = Some (py_round (real (length hotspots) * 0.04) 2),
           max_dnbr = Some (py_max (map dnbr hotspots) 0.0),
           hotspots_geojson =
             map (\<lambda>spot. \<lparr>point_coordinates = [longitude spot, latitude spot],
                          point_properties = spot\<rparr>) hotspots,
           boundary_geojson = Some boundary\<rparr>,
          \<lparr>cur_hotspots = hotspots, cur_state = state_name, cur_district = district_name,
           cur_date_range = start_date request @ '' to '' @ end_date request\<rparr>)))"

text \<open>Lines 250 to 252: \<open>except Exception\<close> turns whatever the block raised into a
  returned dict and leaves \<open>current_fire_data\<close> as it was.\<close>

definition run_fire_detection ::
  "('j, 'g, 'p) earth_engine \<Rightarrow> fire_data \<Rightarrow> 'j request \<Rightarrow> exn + ('j response \<times> fire_data)" where
  "run_fire_detection ee current_fire_data request =
     (case run_fire_detection_try ee request of
        Inl e \<Rightarrow>
          Inr (\<lparr>status = ''Error: '' @ str_exn ee e,
                fire_hotspots = 0,
                fire_area_hectares = None,
                max_dnbr = None,
                hotspots_geojson = [],
                boundary_geojson = None\<rparr>,
               current_fire_data)
      | Inr res \<Rightarrow> Inr res)"

subsection \<open>CSV export\<close>

datatype cell = Int_cell nat | Float_cell real | Str_cell string

record csv_response =
  csv_rows :: "cell list list"
  filename :: string

definition csv_header :: "cell list" where
  "csv_header =
     [Str_cell ''ID'', Str_cell ''Latitude'', Str_cell ''Longitude'', Str_cell ''Severity'',
      Str_cell ''dNBR'', Str_cell ''BAI'', Str_cell ''dNDVI'']"

text \<open>The values of the keys \<open>id\<close>, \<open>latitude\<close>, \<open>longitude\<close>, \<open>severity\<close>, \<open>dnbr\<close>,
  \<open>bai\<close>, \<open>dndvi\<close> of one detection.\<close>

definition csv_row :: "hotspot \<Rightarrow> cell list" where
  "csv_row spot =
     [Int_cell (hotspot_id spot), Float_cell (latitude spot), Float_cell (longitude spot),
      Str_cell (severity spot), Float_cell (dnbr spot), Float_cell (bai spot),
      Float_cell (dndvi spot)]"

definition export_csv_api :: "fire_data \<Rightarrow> exn + csv_response" where
  "export_csv_api current_fire_data =
     (if cur_hotspots current_fire_data = [] then
        Inl (HTTPException 404 ''No data available to export'')
      else
        Inr \<lparr>csv_rows = csv_header # map csv_row (cur_hotspots current_fire_data),
             filename = ''S2_BurnScars_'' @ cur_state current_fire_data @ ''_''
                        @ cur_district current_fire_data @ ''_''
                        @ cur_date_range current_fire_data @ ''.csv''\<rparr>)"

subsection \<open>A small service for worked examples\<close>

text \<open>
  Four pixels \<open>0, 1, 2, 3\<close>; GeoJSON values and geometries are numbers. The composite
  of a 45-day window (a pre-fire window) is green everywhere; in any other window pixel 1
  is unchanged, pixel 0 is burnt and pixels 2 and 3 are burnt harder. Land cover is known for 2023 only: pixels 0 and 1 are
  cropland (class 12), pixel 2 is a cropland mosaic (class 14), pixel 3 is neither (class
  10). Sampling returns the unmasked pixels among the four, in order. Region 9 has no
  images. The boundary dataset has one district.
\<close>

definition example_composite :: "int \<Rightarrow> int \<Rightarrow> nat \<Rightarrow> bands" where
  "example_composite t0 t1 p =
     (if t1 - t0 = 45 * ms_per_day \<or> p = 1
      then \<lparr>B4 = 0.05, B8 = 0.4, B12 = 0.1\<rparr>
      else if p = 0 then \<lparr>B4 = 0.1, B8 = 0.12, B12 = 0.2\<rparr>
      else \<lparr>B4 = 0.1, B8 = 0.11, B12 = 0.33\<rparr>)"

definition example_sample ::
  "(nat \<Rightarrow> (real \<times> real \<times> real) option) \<Rightarrow> feature list" where
  "example_sample img =
     concat (map (\<lambda>p. case img p of
                         None \<Rightarrow> []
                       | Some (a, b, c) \<Rightarrow>
                           [\<lparr>properties = [(''BAI'', Some b), (''dNBR'', Some a), (''dNDVI'', Some c)],
                             coordinates = [75 + real p / 100, 30 + real p / 100]\<rparr>])
                 [0, 1, 2, 3])"

definition example_str :: "exn \<Rightarrow> string" where
  "example_str e =
     (case e of
        HTTPException c d \<Rightarrow>
          (if c = 404 then ''404: '' else if c = 400 then ''400: '' else ''500: '') @ d
      | EEException m \<Rightarrow> m
      | KeyError k \<Rightarrow> k
      | IndexError \<Rightarrow> ''list index out of range''
      | TypeError \<Rightarrow> ''type NoneType does not define __round__ method''
      | OtherException m \<Rightarrow> m)"

definition example_ee :: "(nat, nat, nat) earth_engine" where
  "example_ee =
     \<lparr>ee_Date = (\<lambda>s. if s = ''2022-11-01'' then Inr 1667260800000
                      else if s = ''2022-11-15'' then Inr 1668470400000
                      else if s = ''2023-11-01'' then Inr 1698796800000
                      else if s = ''2023-11-15'' then Inr 1700006400000
                      else if s = ''2025-11-01'' then Inr 1761955200000
                      else if s = ''2025-11-15'' then Inr 1763164800000
                      else Inl (EEException ''Invalid date'')),
      collection_size = (\<lambda>g t0 t1. if g = 9 then Inr 0 else Inr 3),
      median_composite = (\<lambda>g. example_composite),
      date_year = (\<lambda>t. if t < 1672531200000 then Inr 2022
                        else if t < 1704067200000 then Inr 2023 else Inr 2025),
      landcover_first =
        (\<lambda>y. if y = 2023
             then Inr (Some (\<lambda>p. if p = 3 then 10 else if p = 2 then 14 else 12))
             else Inr None),
      sample = (\<lambda>g. Inr \<circ> example_sample),
      ee_Geometry = Inr,
      gaul_level2 = Inr [\<lparr>ADM1_NAME = ''Punjab'', ADM2_NAME = ''Ludhiana'', geometry_info = 7\<rparr>],
      collection_geometry = (\<lambda>fs. 7),
      str_exn = example_str\<rparr>"

text \<open>Requests: a drawn region, a district, both at once, neither, and a district that
  the boundary dataset does not have.\<close>

definition roi_request :: "nat request" where
  "roi_request =
     \<lparr>start_date = ''2023-11-01'', end_date = ''2023-11-15'', state = None, district = None,
      roi = Some [(''type'', 0), (''geometry'', 5)]\<rparr>"




definition unknown_district_request :: "nat request" where
  "unknown_district_request =
     \<lparr>start_date = ''2023-11-01'', end_date = ''2023-11-15'', state = Some ''Punjab'',
      district = Some ''Atlantis'', roi = None\<rparr>"

section \<open>Properties\<close>

subsection \<open>Auxiliary facts\<close>


lemma bind_exn_Inr: "bind_exn (Inr x) f = f x"
  by (simp add: bind_exn_def)

lemma py_max_scan: "foldl (\<lambda>m y. if y > m then y else m) (x::real) xs = Max (set (x # xs))"
proof -
  have step: "(\<lambda>m y. if y > m then y else m) = (\<lambda>m y. max y (m::real))"
    by (auto simp: fun_eq_iff max_def)
  have "foldl (\<lambda>m y. max y m) x xs = fold max xs x"
    by (simp add: foldl_conv_fold)
  also have "\<dots> = Max (set (x # xs))"
    by (simp only: Max.set_eq_fold)
  finally show ?thesis by (simp only: step)
qed

lemma py_max_eq: "py_max xs 0.0 = (if xs = [] then 0 else Max (set xs))"
  by (cases xs) (simp_all only: py_max.simps py_max_scan, simp_all)


lemma extract_try_unfold:
  assumes "ee_Date ee s = Inr ps" and "ee_Date ee e = Inr pe"
  shows "extract_burn_scars_s2_try ee g s e =
         bind_exn (collection_size ee g (ps - 60 * 86400000) (ps - 15 * 86400000)) (\<lambda>pre_count.
         bind_exn (collection_size ee g ps pe) (\<lambda>post_count.
         if pre_count = 0 \<or> post_count = 0 then Inr []
         else triple_check_analysis ee g (ps - 60 * 86400000) (ps - 15 * 86400000) ps pe))"
  using assms
  by (simp add: extract_burn_scars_s2_try_def bind_exn_Inr pre_fire_start_def pre_fire_end_def
        ms_per_day_def cong: if_cong)


lemma round_half_even_of_int: "round_half_even (of_int k) = k"
  by (simp add: round_half_even_def)

lemma py_round_area: "py_round (real n * 0.04) 2 = real n * 0.04"
proof -
  have "real n * 0.04 * 10 ^ 2 = of_int (4 * int n)" by simp
  then have "round_half_even (real n * 0.04 * 10 ^ 2) = 4 * int n"
    by (simp only: round_half_even_of_int)
  then show ?thesis by (simp add: py_round_def)
qed

lemma run_fire_detection_returns: "\<exists>res. run_fire_detection ee cur req = Inr res"
  by (simp add: run_fire_detection_def split: sum.split)

lemma example_roi_run:
  "run_fire_detection example_ee initial_fire_data roi_request =
     Inr (\<lparr>status = ''Success'', fire_hotspots = 2, fire_area_hectares = Some 0.08,
           max_dnbr = Some 1.1,
           hotspots_geojson =
             [\<lparr>point_coordinates = [75, 30],
               point_properties =
                 \<lparr>hotspot_id = 1, latitude = 30, longitude = 75, dnbr = 0.85, bai = 277.78,
                  dndvi = 0.687, severity = ''Very High Severity''\<rparr>\<rparr>,
              \<lparr>point_coordinates = [75.02, 30.02],
               point_properties =
                 \<lparr>hotspot_id = 2, latitude = 30.02, longitude = 75.02, dnbr = 1.1, bai = 400,
                  dndvi = 0.73, severity = ''Very High Severity''\<rparr>\<rparr>],
           boundary_geojson = Some 5\<rparr>,
          \<lparr>cur_hotspots =
             [\<lparr>hotspot_id = 1, latitude = 30, longitude = 75, dnbr = 0.85, bai = 277.78,
               dndvi = 0.687, severity = ''Very High Severity''\<rparr>,
              \<lparr>hotspot_id = 2, latitude = 30.02, longitude = 75.02, dnbr = 1.1, bai = 400,
               dndvi = 0.73, severity = ''Very High Severity''\<rparr>],
           cur_state = ''Custom'', cur_district = ''ROI'',
           cur_date_range = ''2023-11-01 to 2023-11-15''\<rparr>)"
  by code_simp

subsection \<open>The claims\<close>

text \<open>
  C1. For every dNBR value other than \<open>None\<close> the classifier returns one of the five
  tiers, and which one is fixed by the thresholds: Very High exactly when
  \<open>dNBR \<ge> 0.66\<close>, High exactly when \<open>0.44 \<le> dNBR < 0.66\<close>, Moderate exactly when
  \<open>0.27 \<le> dNBR < 0.44\<close>, Low exactly when \<open>0.10 \<le> dNBR < 0.27\<close>, Unburned or Regrowth
  exactly when \<open>dNBR < 0.10\<close>. The four boundary values fall into the higher tier.
\<close>

theorem get_burn_severity_tiers:
  "get_burn_severity (Some d) \<in> set severity_levels
   \<and> (get_burn_severity (Some d) = ''Very High Severity'' \<longleftrightarrow> 0.66 \<le> d)
   \<and> (get_burn_severity (Some d) = ''High Severity'' \<longleftrightarrow> 0.44 \<le> d \<and> d < 0.66)
   \<and> (get_burn_severity (Some d) = ''Moderate Severity'' \<longleftrightarrow> 0.27 \<le> d \<and> d < 0.44)
   \<and> (get_burn_severity (Some d) = ''Low Severity'' \<longleftrightarrow> 0.10 \<le> d \<and> d < 0.27)
   \<and> (get_burn_severity (Some d) = ''Unburned or Regrowth'' \<longleftrightarrow> d < 0.10)
   \<and> get_burn_severity (Some 0.66) = ''Very High Severity''
   \<and> get_burn_severity (Some 0.44) = ''High Severity''
   \<and> get_burn_severity (Some 0.27) = ''Moderate Severity''
   \<and> get_burn_severity (Some 0.10) = ''Low Severity''"
  by (simp add: severity_levels_def)

theorem get_burn_severity_tiers_witness:
  "get_burn_severity (Some 0.5) = ''High Severity''
   \<and> get_burn_severity (Some 0.5) \<in> set severity_levels"
  using get_burn_severity_tiers [of "0.5"] by simp






text \<open>
  C4. For a (state, district) pair that matches no feature of the boundary dataset the
  claim asks for a not-found error to reach the caller. The \<open>try\<close> block does raise
  \<open>HTTPException(404)\<close>, but \<open>run_fire_detection\<close> returns normally, with a dict whose
  status is the error text, zero hotspots and an empty feature collection.
\<close>

theorem unknown_district_returns_error_dict:
  "filter (\<lambda>f. ADM1_NAME f = ''Punjab'' \<and> ADM2_NAME f = ''Atlantis'')
     [\<lparr>ADM1_NAME = ''Punjab'', ADM2_NAME = ''Ludhiana'', geometry_info = (7::nat)\<rparr>] = []
   \<and> run_fire_detection_try example_ee unknown_district_request =
       Inl (HTTPException 404 ''District not found'')
   \<and> run_fire_detection example_ee initial_fire_data unknown_district_request =
     Inr (\<lparr>status = ''Error: 404: District not found'', fire_hotspots = 0,
           fire_area_hectares = None, max_dnbr = None, hotspots_geojson = [],
           boundary_geojson = None\<rparr>,
          initial_fire_data)"
  by code_simp

text \<open>
  C5. When the pre-fire subset or the post-fire subset of images is empty, the pipeline
  returns the empty list of detections, and it returns: nothing is raised.
\<close>

theorem empty_subset_no_detections:
  assumes "ee_Date ee s = Inr ps" and "ee_Date ee e = Inr pe"
    and "collection_size ee g (pre_fire_start ps) (pre_fire_end ps) = Inr 0
         \<or> collection_size ee g ps pe = Inr 0"
  shows "extract_burn_scars_s2 ee g s e = Inr []"
  using assms
  by (auto simp: extract_burn_scars_s2_def extract_burn_scars_s2_try_def bind_exn_def
           split: sum.splits)

theorem empty_subset_no_detections_witness:
  "ee_Date example_ee ''2023-11-01'' = Inr 1698796800000
   \<and> ee_Date example_ee ''2023-11-15'' = Inr 1700006400000
   \<and> collection_size example_ee 9 (pre_fire_start 1698796800000) (pre_fire_end 1698796800000)
       = Inr 0
   \<and> extract_burn_scars_s2 example_ee 9 ''2023-11-01'' ''2023-11-15'' = Inr []"
proof -
  have d1: "ee_Date example_ee ''2023-11-01'' = Inr 1698796800000"
    by (simp add: example_ee_def)
  have d2: "ee_Date example_ee ''2023-11-15'' = Inr 1700006400000"
    by (simp add: example_ee_def)
  have c: "collection_size example_ee 9 (pre_fire_start 1698796800000)
             (pre_fire_end 1698796800000) = Inr 0"
    by (simp add: example_ee_def)
  from empty_subset_no_detections [OF d1 d2 disjI1, OF c] d1 d2 c show ?thesis by simp
qed

text \<open>
  C6. For a start and an end date, the post-fire window runs from start to end and the
  pre-fire window from start minus 60 days to start minus 15 days: these are the bounds the
  pipeline counts the two subsets with and builds the two composites from. (Whether a bound
  itself belongs to the window is decided by the service's date filter.)
\<close>

theorem fire_windows:
  "pre_fire_start start_ms = start_ms - 60 * ms_per_day
   \<and> pre_fire_end start_ms = start_ms - 15 * ms_per_day
   \<and> (ee_Date ee s = Inr start_ms \<and> ee_Date ee e = Inr end_ms \<longrightarrow>
        extract_burn_scars_s2_try ee g s e =
          bind_exn (collection_size ee g (start_ms - 60 * ms_per_day) (start_ms - 15 * ms_per_day))
            (\<lambda>pre_count.
          bind_exn (collection_size ee g start_ms end_ms) (\<lambda>post_count.
          if pre_count = 0 \<or> post_count = 0 then Inr []
          else triple_check_analysis ee g
                 (start_ms - 60 * ms_per_day) (start_ms - 15 * ms_per_day) start_ms end_ms)))"
  by (simp add: pre_fire_start_def pre_fire_end_def extract_try_unfold ms_per_day_def
        cong: if_cong)

theorem fire_windows_witness:
  "ee_Date example_ee ''2023-11-01'' = Inr 1698796800000
   \<and> ee_Date example_ee ''2023-11-15'' = Inr 1700006400000
   \<and> pre_fire_start 1698796800000 = 1693612800000
   \<and> pre_fire_end 1698796800000 = 1697500800000
   \<and> extract_burn_scars_s2_try example_ee 5 ''2023-11-01'' ''2023-11-15'' =
       triple_check_analysis example_ee 5 1693612800000 1697500800000
         1698796800000 1700006400000"
proof -
  have d1: "ee_Date example_ee ''2023-11-01'' = Inr 1698796800000"
    by (simp add: example_ee_def)
  have d2: "ee_Date example_ee ''2023-11-15'' = Inr 1700006400000"
    by (simp add: example_ee_def)
  have c: "collection_size example_ee 5 t0 t1 = Inr 3" for t0 t1
    by (simp add: example_ee_def)
  from fire_windows [of 1698796800000 example_ee "''2023-11-01''" "''2023-11-15''"
        1700006400000 5] d1 d2
  show ?thesis by (simp add: c bind_exn_Inr ms_per_day_def)
qed



text \<open>
  C8. In the response of a completed run, \<open>fire_area_hectares\<close> is the number of
  detections times 0.04, and \<open>max_dnbr\<close> is the greatest \<open>dnbr\<close> of the detections, or
  0.0 when there is none.
\<close>

theorem response_aggregates:
  assumes "run_fire_detection ee cur req = Inr (r, cur')" and "status r = ''Success''"
  shows "fire_area_hectares r = Some (real (fire_hotspots r) * 0.04)
         \<and> fire_hotspots r = length (hotspots_geojson r)
         \<and> max_dnbr r =
             Some (if hotspots_geojson r = [] then 0.0
                   else Max (set (map (dnbr \<circ> point_properties) (hotspots_geojson r))))"
proof -
  from assms obtain roi_geometry boundary state_name district_name hotspots where
    r: "r = \<lparr>status = ''Success'',
           fire_hotspots = length hotspots,
           fire_area_hectares = Some (py_round (real (length hotspots) * 0.04) 2),
           max_dnbr = Some (py_max (map dnbr hotspots) 0.0),
           hotspots_geojson =
             map (\<lambda>spot. \<lparr>point_coordinates = [longitude spot, latitude spot],
                          point_properties = spot\<rparr>) hotspots,
           boundary_geojson = Some boundary\<rparr>"
    by (auto simp: run_fire_detection_def run_fire_detection_try_def bind_exn_def
          split: sum.splits prod.splits)
  have f1: "fire_hotspots r = length hotspots"
    by (simp add: r)
  have f2: "fire_area_hectares r = Some (py_round (real (length hotspots) * 0.04) 2)"
    by (simp add: r)
  have f3: "max_dnbr r = Some (py_max (map dnbr hotspots) 0.0)"
    by (simp add: r)
  have f4: "length (hotspots_geojson r) = length hotspots"
    by (simp add: r)
  have f5: "map (dnbr \<circ> point_properties) (hotspots_geojson r) = map dnbr hotspots"
    by (simp add: r comp_def)
  have f6: "hotspots_geojson r = [] \<longleftrightarrow> map dnbr hotspots = []"
    by (simp add: r)
  have area: "fire_area_hectares r = Some (real (fire_hotspots r) * 0.04)"
    by (simp only: f1 f2 py_round_area)
  have mx: "max_dnbr r =
             Some (if hotspots_geojson r = [] then 0.0
                   else Max (set (map (dnbr \<circ> point_properties) (hotspots_geojson r))))"
    by (simp only: f3 f5 f6 py_max_eq) simp
  from area mx f1 f4 show ?thesis by simp
qed

theorem response_aggregates_witness:
  "status (fst (projr (run_fire_detection example_ee initial_fire_data roi_request)))
     = ''Success''
   \<and> fire_hotspots (fst (projr (run_fire_detection example_ee initial_fire_data roi_request)))
     = 2
   \<and> fire_area_hectares
       (fst (projr (run_fire_detection example_ee initial_fire_data roi_request)))
     = Some (2 * 0.04)
   \<and> max_dnbr (fst (projr (run_fire_detection example_ee initial_fire_data roi_request)))
     = Some (Max {0.85, 1.1})"
  using response_aggregates [OF example_roi_run]
  by (simp add: example_roi_run)

text \<open>
  C9. With no cached detection the export fails with \<open>HTTPException(404)\<close>. Otherwise
  it returns, after the header row, one row for each cached detection, in order, holding
  its \<open>id\<close>, \<open>latitude\<close>, \<open>longitude\<close>, \<open>severity\<close>, \<open>dnbr\<close>, \<open>bai\<close> and \<open>dndvi\<close>.
\<close>

theorem export_csv_rows:
  "(cur_hotspots cur = [] \<longrightarrow>
      export_csv_api cur = Inl (HTTPException 404 ''No data available to export''))
   \<and> (cur_hotspots cur \<noteq> [] \<longrightarrow>
      (\<exists>resp. export_csv_api cur = Inr resp
         \<and> csv_rows resp = csv_header # map csv_row (cur_hotspots cur)
         \<and> length (tl (csv_rows resp)) = length (cur_hotspots cur)
         \<and> (\<forall>i < length (cur_hotspots cur).
              tl (csv_rows resp) ! i =
                [Int_cell (hotspot_id (cur_hotspots cur ! i)),
                 Float_cell (latitude (cur_hotspots cur ! i)),
                 Float_cell (longitude (cur_hotspots cur ! i)),
                 Str_cell (severity (cur_hotspots cur ! i)),
                 Float_cell (dnbr (cur_hotspots cur ! i)),
                 Float_cell (bai (cur_hotspots cur ! i)),
                 Float_cell (dndvi (cur_hotspots cur ! i))])))"
  by (simp add: export_csv_api_def csv_row_def)

theorem export_csv_rows_witness:
  "cur_hotspots initial_fire_data = []
   \<and> export_csv_api initial_fire_data = Inl (HTTPException 404 ''No data available to export'')
   \<and> csv_rows (projr (export_csv_api
        \<lparr>cur_hotspots =
           [\<lparr>hotspot_id = 1, latitude = 30, longitude = 75, dnbr = 0.85, bai = 277.78,
             dndvi = 0.687, severity = ''Very High Severity''\<rparr>],
         cur_state = ''Custom'', cur_district = ''ROI'',
         cur_date_range = ''2023-11-01 to 2023-11-15''\<rparr>)) =
       [csv_header,
        [Int_cell 1, Float_cell 30, Float_cell 75, Str_cell ''Very High Severity'',
         Float_cell 0.85, Float_cell 277.78, Float_cell 0.687]]"
  using export_csv_rows [of initial_fire_data]
    export_csv_rows [of "\<lparr>cur_hotspots =
           [\<lparr>hotspot_id = 1, latitude = 30, longitude = 75, dnbr = 0.85, bai = 277.78,
             dndvi = 0.687, severity = ''Very High Severity''\<rparr>],
         cur_state = ''Custom'', cur_district = ''ROI'',
         cur_date_range = ''2023-11-01 to 2023-11-15''\<rparr>"]
  by (auto simp: initial_fire_data_def csv_row_def)

text \<open>
  C10. On \<open>None\<close> the classifier returns \<open>Unknown\<close>, which is none of the five documented
  levels; on every other input it returns one of the five.
\<close>

theorem get_burn_severity_unknown:
  "get_burn_severity None = ''Unknown''
   \<and> ''Unknown'' \<notin> set severity_levels
   \<and> (\<forall>d. get_burn_severity (Some d) \<in> set severity_levels)"
  by (simp add: severity_levels_def)

end
